theory Spec2Isabelle
  imports Main
begin

section \<open>The process-wide state and the host\<close>

text \<open>
  \<^verbatim>\<open>plt.rcParams\<close> is the process-wide rendering configuration. The program writes two of
  its keys, \<^verbatim>\<open>'font.family'\<close> and \<^verbatim>\<open>'axes.unicode_minus'\<close>, and reads the first one
  back. The store validates what is assigned: the font family it holds is a list of
  family names (\<^verbatim>\<open>['sans-serif']\<close> in a fresh process), the flag a truth value.
\<close>

record rcParams =
  font_family :: "string list"
  axes_unicode_minus :: bool

text \<open>
  The validation of \<^verbatim>\<open>'font.family'\<close>. A string \<open>s\<close> assigned to the key is stored as
  \<^verbatim>\<open>[v.strip() for v in s.split(',') if v.strip()]\<close>: split at every comma, each part
  stripped of the white space around it, empty parts dropped. White space is that of
  ASCII: tab, line feed, vertical tab, form feed, carriage return, the four separators
  \<open>0x1C\<close> to \<open>0x1F\<close>, and the space.
\<close>

definition is_space :: "char \<Rightarrow> bool" where
  "is_space c \<longleftrightarrow>
     c \<in> set [CHR 0x09, CHR 0x0A, CHR 0x0B, CHR 0x0C, CHR 0x0D,
              CHR 0x1C, CHR 0x1D, CHR 0x1E, CHR 0x1F, CHR '' '']"

definition strip :: "string \<Rightarrow> string" where
  "strip s = rev (dropWhile is_space (rev (dropWhile is_space s)))"

fun split_comma :: "string \<Rightarrow> string list" where
  "split_comma [] = [[]]"
| "split_comma (c # cs) =
     (if c = CHR '','' then [] # split_comma cs
      else (case split_comma cs of
              [] \<Rightarrow> [[c]]
            | part # parts \<Rightarrow> (c # part) # parts))"

definition validate_stringlist :: "string \<Rightarrow> string list" where
  "validate_stringlist s = filter (\<lambda>v. v \<noteq> []) (map strip (split_comma s))"

text \<open>
  A name the validation keeps whole: not empty, without a comma, and with no white
  space at either end.
\<close>

definition plain_name :: "string \<Rightarrow> bool" where
  "plain_name s \<longleftrightarrow>
     s \<noteq> [] \<and> CHR '','' \<notin> set s
     \<and> \<not> is_space (hd s) \<and> \<not> is_space (last s)"

text \<open>
  What the file system holds at a path, as far as \<^verbatim>\<open>FontProperties(fname=...).get_name()\<close>
  can tell: nothing (the path is not in the map), a file that cannot be read, a file
  that is no font, or a font file with the family name of its metadata.
\<close>

datatype font_file = Unreadable | Malformed | FontFile string

datatype load_error = FileMissing | FileUnreadable | FileMalformed

text \<open>
  The host as the program reads it: \<^verbatim>\<open>platform.system()\<close>, the \<^verbatim>\<open>name\<close> of every entry
  of \<^verbatim>\<open>fm.fontManager.ttflist\<close> in enumeration order (one entry per font file, so a
  family name can occur more than once), and the files of the working directory.
\<close>

record host =
  system :: string
  ttflist :: "string list"
  files :: "string \<rightharpoonup> font_file"

section \<open>What a script run renders\<close>

text \<open>
  A label of the data table is a Python \<^verbatim>\<open>str\<close> of Hangul: the list of its code points.
\<close>

type_synonym label = "nat list"

text \<open>The five options of the sidebar selectbox (line 77), in their order.\<close>

datatype chart_type = BarChart | LineChart | PieChart | Heatmap | ScatterPlot

text \<open>
  A matplotlib figure with the labelled integers it plots. The correlation matrix of the
  heatmap and the x coordinates of the scatter plot are floating point and carry no
  payload here.
\<close>

datatype figure =
    BarFig "(label \<times> int) list"
  | LineFig "(label \<times> int) list"
  | PieFig "(label \<times> int) list"
  | HeatmapFig
  | ScatterFig "(label \<times> int) list"

datatype plotly_figure =
    PlotlyBar "(label \<times> int) list"
  | PlotlyDonut "(label \<times> int) list"

datatype metric = TotalPopulation | MeanArea | MaxDensity | MinDensity

datatype info =
    InfoSystem string
  | InfoFontName "string option"
  | InfoFontFamily "string list"
  | InfoFontListHeader
  | InfoFontItem string

text \<open>
  The Streamlit calls of a script run, in the order the script makes them.
  \<^item> \<open>StSuccess\<close>, \<open>StWarning\<close>, \<open>StError\<close>: the status messages of the font set-up;
    \<open>StSuccess\<close> carries the font name its message interpolates, if any.
  \<^item> \<open>StStatic n\<close>: the call on source line \<open>n\<close>, whose content is a constant (title,
    markdown rule, header, fixed text, the selectbox, the data table).
  \<^item> \<open>StPyplot rc fig\<close>: \<^verbatim>\<open>st.pyplot(fig)\<close>; the figure passes no font family of its own,
    so it is drawn under the global configuration \<open>rc\<close> of that moment.
  \<^item> \<open>StPlotly family fig\<close>: \<^verbatim>\<open>st.plotly_chart(fig)\<close> with the font family of the figure's
    own layout.
  \<^item> \<open>StMetric m v\<close>: \<^verbatim>\<open>st.metric\<close> with the integer it shows (none for the mean area,
    a float).
  \<^item> \<open>StWrite i\<close>: a line of the font information expander.
\<close>

datatype st_event =
    StSuccess "string option"
  | StWarning
  | StError
  | StStatic nat
  | StPyplot rcParams figure
  | StPlotly string plotly_figure
  | StMetric metric "int option"
  | StWrite info

section \<open>setup\_korean\_font (lines 20--64)\<close>

text \<open>Lines 27--35: the candidate list chosen by the operating system identifier.\<close>

definition font_candidates :: "string \<Rightarrow> string list" where
  "font_candidates sys =
     (if sys = ''Windows'' then [''Malgun Gothic'', ''Microsoft YaHei'', ''SimHei'']
      else if sys = ''Darwin'' then [''AppleGothic'', ''Apple SD Gothic Neo'', ''Noto Sans CJK KR'']
      else [''Noto Sans CJK KR'', ''DejaVu Sans'', ''Liberation Sans''])"

text \<open>Python's \<^verbatim>\<open>x in xs\<close> on a list: some element is equal to \<open>x\<close>.\<close>

primrec list_in :: "'a \<Rightarrow> 'a list \<Rightarrow> bool" where
  "list_in x [] = False"
| "list_in x (y # ys) = (x = y \<or> list_in x ys)"

text \<open>
  Lines 40--44: \<^verbatim>\<open>selected_font\<close> after the loop; the \<^verbatim>\<open>break\<close> ends the scan at the first
  candidate found among the installed names.
\<close>

primrec select_font :: "string list \<Rightarrow> string list \<Rightarrow> string option" where
  "select_font [] available_fonts = None"
| "select_font (font # rest) available_fonts =
     (if list_in font available_fonts then Some font else select_font rest available_fonts)"

definition font_path :: string where
  "font_path = ''NotoSansKR-Regular.ttf''"

text \<open>
  \<^verbatim>\<open>fm.FontProperties(fname=font_path).get_name()\<close>: the family name in the metadata of
  the file, or the exception the \<^verbatim>\<open>try\<close> block catches.
\<close>

definition get_name :: "(string \<rightharpoonup> font_file) \<Rightarrow> string \<Rightarrow> load_error + string" where
  "get_name fs path =
     (case fs path of
        None \<Rightarrow> Inl FileMissing
      | Some Unreadable \<Rightarrow> Inl FileUnreadable
      | Some Malformed \<Rightarrow> Inl FileMalformed
      | Some (FontFile n) \<Rightarrow> Inr n)"

text \<open>
  Lines 52--64, the \<^verbatim>\<open>else\<close> branch. \<^verbatim>\<open>get_name()\<close> is called twice (lines 58 and 61);
  the right-hand side of line 58 is evaluated before the assignment, so an exception
  there leaves the configuration untouched. The bare \<^verbatim>\<open>except\<close> catches either call.
  The assignment of line 58 stores the validated name, line 61 returns the name itself.
\<close>

definition load_font_file :: "host \<Rightarrow> rcParams \<Rightarrow> string option \<times> st_event list \<times> rcParams" where
  "load_font_file h rc =
     (case get_name (files h) font_path of
        Inl e \<Rightarrow> (None, [StWarning, StError], rc)
      | Inr n \<Rightarrow>
          (let rc' = rc\<lparr>font_family := validate_stringlist n, axes_unicode_minus := False\<rparr> in
           case get_name (files h) font_path of
             Inl e \<Rightarrow> (None, [StWarning, StSuccess None, StError], rc')
           | Inr n' \<Rightarrow> (Some n', [StWarning, StSuccess None], rc')))"

text \<open>
  The body of the function: the returned value (\<open>None\<close> for Python's \<^verbatim>\<open>None\<close>), the
  status messages, and the configuration after the call. Line 46 tests the truth value
  of \<^verbatim>\<open>selected_font\<close>: \<^verbatim>\<open>None\<close> and the empty string both take the \<^verbatim>\<open>else\<close> branch.
\<close>

definition setup_korean_font :: "host \<Rightarrow> rcParams \<Rightarrow> string option \<times> st_event list \<times> rcParams" where
  "setup_korean_font h rc =
     (case select_font (font_candidates (system h)) (ttflist h) of
        None \<Rightarrow> load_font_file h rc
      | Some selected_font \<Rightarrow>
          if selected_font \<noteq> [] then
            (Some selected_font, [StSuccess (Some selected_font)],
             rc\<lparr>font_family := validate_stringlist selected_font, axes_unicode_minus := False\<rparr>)
          else load_font_file h rc)"

section \<open>The memoised set-up (line 20)\<close>

text \<open>
  The state of the process: the rendering configuration and the entry that
  \<^verbatim>\<open>@st.cache_resource\<close> keeps for \<^verbatim>\<open>setup_korean_font\<close>. The decorator runs the body at
  the first call and stores the returned value with the Streamlit messages the body
  wrote; a later call in the same process runs nothing of the body, replays the
  messages and returns the stored value.
\<close>

record process =
  rcParams :: rcParams
  cache_resource :: "(string option \<times> st_event list) option"

definition fresh_process :: "rcParams \<Rightarrow> process" where
  "fresh_process rc0 = \<lparr>rcParams = rc0, cache_resource = None\<rparr>"

definition setup_korean_font_cached :: "host \<Rightarrow> process \<Rightarrow> string option \<times> st_event list \<times> process" where
  "setup_korean_font_cached h p =
     (case cache_resource p of
        Some (font_name, msgs) \<Rightarrow> (font_name, msgs, p)
      | None \<Rightarrow>
          (case setup_korean_font h (rcParams p) of
             (font_name, msgs, rc') \<Rightarrow>
               (font_name, msgs, p\<lparr>rcParams := rc', cache_resource := Some (font_name, msgs)\<rparr>)))"

section \<open>main (lines 66--228)\<close>

text \<open>
  Lines 81--87: the data table. The labels are
  Seoul, Busan, Daegu, Incheon, Gwangju, Daejeon, Ulsan, Sejong in Hangul. The area
  column holds floats and is left out with everything computed from it.
\<close>

record dataframe =
  region :: "label list"
  population :: "int list"
  density :: "int list"

definition df :: dataframe where
  "df = \<lparr>region = [[0xC11C, 0xC6B8], [0xBD80, 0xC0B0], [0xB300, 0xAD6C], [0xC778, 0xCC9C],
                   [0xAD11, 0xC8FC], [0xB300, 0xC804], [0xC6B8, 0xC0B0], [0xC138, 0xC885]],
         population = [9720846, 3404423, 2401110, 2947217, 1441970, 1454679, 1124459, 365309],
         density = [16154, 4419, 2716, 2831, 2876, 2694, 1059, 785]\<rparr>"

text \<open>\<^verbatim>\<open>ax.pie(x, labels=labels)\<close>: one wedge for each value, with its label.\<close>

definition pie :: "int list \<Rightarrow> label list \<Rightarrow> (label \<times> int) list" where
  "pie x labels = zip labels x"

text \<open>\<^verbatim>\<open>Series.max()\<close> and \<^verbatim>\<open>Series.min()\<close>; an empty column has neither.\<close>

fun series_max :: "int list \<Rightarrow> int option" where
  "series_max [] = None"
| "series_max (x # xs) = Some (fold max xs x)"

fun series_min :: "int list \<Rightarrow> int option" where
  "series_min [] = None"
| "series_min (x # xs) = Some (fold min xs x)"

text \<open>
  Lines 93--166: the chart of the selected type. No branch assigns to \<^verbatim>\<open>plt.rcParams\<close>
  or passes a font family, so the figure is drawn under the configuration \<open>rc\<close> the
  process has when the branch runs.
\<close>

definition chart_area :: "chart_type \<Rightarrow> dataframe \<Rightarrow> rcParams \<Rightarrow> st_event list" where
  "chart_area chart_type d rc =
     StStatic 93 #
     (case chart_type of
        BarChart \<Rightarrow> [StPyplot rc (BarFig (zip (region d) (population d)))]
      | LineChart \<Rightarrow> [StPyplot rc (LineFig (zip (region d) (density d)))]
      | PieChart \<Rightarrow> [StPyplot rc (PieFig (pie (population d) (region d)))]
      | Heatmap \<Rightarrow> [StPyplot rc HeatmapFig]
      | ScatterPlot \<Rightarrow> [StPyplot rc (ScatterFig (zip (region d) (population d)))])"

text \<open>Lines 169--186: the table, the fixed Hangul text and the four metrics.\<close>

definition data_column :: "dataframe \<Rightarrow> st_event list" where
  "data_column d =
     [StStatic 169, StStatic 170, StStatic 172, StStatic 173, StStatic 174, StStatic 175,
      StStatic 176, StStatic 179,
      StMetric TotalPopulation (Some (sum_list (population d))),
      StMetric MeanArea None,
      StMetric MaxDensity (series_max (density d)),
      StMetric MinDensity (series_min (density d))]"

text \<open>
  Lines 189--214: the two Plotly figures. Each sets the font of its own layout
  (lines 201 and 211) to a fixed family list.
\<close>

definition plotly_area :: "dataframe \<Rightarrow> st_event list" where
  "plotly_area d =
     [StStatic 189, StStatic 190,
      StPlotly ''Malgun Gothic, AppleGothic, Noto Sans CJK KR''
        (PlotlyBar (zip (region d) (population d))),
      StPlotly ''Malgun Gothic, AppleGothic, Noto Sans CJK KR''
        (PlotlyDonut (zip (region d) (population d)))]"

text \<open>Python's \<^verbatim>\<open>sub in s\<close> on strings: \<open>sub\<close> occurs in \<open>s\<close> at some position.\<close>

fun startswith :: "string \<Rightarrow> string \<Rightarrow> bool" where
  "startswith s [] = True"
| "startswith [] (c # cs) = False"
| "startswith (x # xs) (c # cs) = (x = c \<and> startswith xs cs)"

primrec str_in :: "string \<Rightarrow> string \<Rightarrow> bool" where
  "str_in sub [] = (sub = [])"
| "str_in sub (x # xs) = (startswith (x # xs) sub \<or> str_in sub xs)"

text \<open>Line 224: the installed names that contain one of the three markers.\<close>

definition available_hangul_fonts :: "string list \<Rightarrow> string list" where
  "available_hangul_fonts names =
     filter (\<lambda>name. str_in ''Gothic'' name \<or> str_in ''Noto'' name \<or> str_in ''Malgun'' name) names"

text \<open>Lines 217--228: the font information expander.\<close>

definition font_info :: "host \<Rightarrow> string option \<Rightarrow> rcParams \<Rightarrow> st_event list" where
  "font_info h font_name rc =
     [StStatic 217, StWrite (InfoSystem (system h)), StWrite (InfoFontName font_name),
      StWrite (InfoFontFamily (font_family rc))] @
     (let available_fonts = available_hangul_fonts (ttflist h) in
      if available_fonts \<noteq> [] then
        StWrite InfoFontListHeader # map (\<lambda>font. StWrite (InfoFontItem font)) (take 10 available_fonts)
      else [])"

text \<open>
  One run of the script for the chart type selected in the sidebar: what it renders, in
  call order, and the state of the process afterwards.
\<close>

definition main :: "host \<Rightarrow> chart_type \<Rightarrow> process \<Rightarrow> st_event list \<times> process" where
  "main h chart_type p =
     (case setup_korean_font_cached h p of
        (font_name, msgs, p') \<Rightarrow>
          (msgs @ [StStatic 70, StStatic 71, StStatic 74, StStatic 75]
             @ chart_area chart_type df (rcParams p')
             @ data_column df
             @ plotly_area df
             @ font_info h font_name (rcParams p'),
           p'))"

text \<open>
  Streamlit runs the script again at every interaction, in the same process: the state
  after the runs for a list of selections.
\<close>

primrec session :: "host \<Rightarrow> chart_type list \<Rightarrow> process \<Rightarrow> process" where
  "session h [] p = p"
| "session h (c # cs) p = session h cs (snd (main h c p))"

section \<open>Reading the rendered page\<close>

text \<open>
  The font families a chart is drawn with, in order of preference: those of the global
  configuration for a matplotlib figure, the names of the comma-separated list of the
  layout for a Plotly figure.
\<close>

fun chart_family :: "st_event \<Rightarrow> string list option" where
  "chart_family (StPyplot rc fig) = Some (font_family rc)"
| "chart_family (StPlotly family fig) = Some (validate_stringlist family)"
| "chart_family ev = None"

text \<open>Every chart of the page is drawn with the families of the global configuration.\<close>

definition fonts_synchronised :: "rcParams \<Rightarrow> st_event list \<Rightarrow> bool" where
  "fonts_synchronised rc evs =
     list_all (\<lambda>ev. case chart_family ev of None \<Rightarrow> True | Some fam \<Rightarrow> fam = font_family rc) evs"

fun pyplot_config :: "st_event \<Rightarrow> rcParams option" where
  "pyplot_config (StPyplot rc fig) = Some rc"
| "pyplot_config ev = None"

fun plotly_family :: "st_event \<Rightarrow> string option" where
  "plotly_family (StPlotly family fig) = Some family"
| "plotly_family ev = None"

fun pie_wedges :: "st_event \<Rightarrow> (label \<times> int) list option" where
  "pie_wedges (StPyplot rc (PieFig wedges)) = Some wedges"
| "pie_wedges ev = None"

fun total_metric :: "st_event \<Rightarrow> int option" where
  "total_metric (StMetric TotalPopulation v) = v"
| "total_metric ev = None"


text \<open>The sum of the values of the wedges of a pie.\<close>

definition wedge_total :: "(label \<times> int) list \<Rightarrow> int" where
  "wedge_total wedges = sum_list (map snd wedges)"

section \<open>The process once the set-up has run\<close>

text \<open>
  The state a process started with the configuration \<open>rc0\<close> is in after the body of the
  set-up has run once: the configuration the body left, and its result in the cache.
\<close>

definition after_setup :: "host \<Rightarrow> rcParams \<Rightarrow> process" where
  "after_setup h rc0 =
     \<lparr>rcParams = snd (snd (setup_korean_font h rc0)),
      cache_resource = Some (fst (setup_korean_font h rc0), fst (snd (setup_korean_font h rc0)))\<rparr>"

text \<open>
  What a run renders in such a process, on the first run and on every later one: the
  messages of the set-up, then the calls of \<open>main\<close> under the configuration it left.
\<close>

definition page :: "host \<Rightarrow> chart_type \<Rightarrow> rcParams \<Rightarrow> st_event list" where
  "page h chart_type rc0 =
     fst (snd (setup_korean_font h rc0))
       @ [StStatic 70, StStatic 71, StStatic 74, StStatic 75]
       @ chart_area chart_type df (snd (snd (setup_korean_font h rc0)))
       @ data_column df
       @ plotly_area df
       @ font_info h (fst (setup_korean_font h rc0)) (snd (snd (setup_korean_font h rc0)))"

section \<open>Properties of the font set-up\<close>

lemma split_comma_plain: "CHR '','' \<notin> set s \<Longrightarrow> split_comma s = [s]"
  by (induction s) auto

lemma dropWhile_head: "s \<noteq> [] \<Longrightarrow> \<not> P (hd s) \<Longrightarrow> dropWhile P s = s"
  by (cases s) simp_all

lemma strip_plain:
  assumes "s \<noteq> []" "\<not> is_space (hd s)" "\<not> is_space (last s)"
  shows "strip s = s"
proof -
  have "dropWhile is_space s = s" using assms(1,2) by (rule dropWhile_head)
  moreover have "dropWhile is_space (rev s) = rev s"
    using assms(1,3) by (intro dropWhile_head) (simp_all add: hd_rev)
  ultimately show ?thesis by (simp add: strip_def)
qed

lemma validate_plain: "plain_name s \<Longrightarrow> validate_stringlist s = [s]"
  by (simp add: plain_name_def validate_stringlist_def split_comma_plain strip_plain)

lemma font_candidates_plain: "c \<in> set (font_candidates sys) \<Longrightarrow> plain_name c"
  by (auto simp: font_candidates_def plain_name_def is_space_def split: if_splits)

lemma list_in_set: "list_in x xs \<longleftrightarrow> x \<in> set xs"
  by (induction xs) auto

lemma font_candidates_nonempty: "c \<in> set (font_candidates sys) \<Longrightarrow> c \<noteq> []"
  by (auto simp: font_candidates_def split: if_splits)

lemma select_font_None:
  "select_font cs av = None \<longleftrightarrow> (\<forall>c \<in> set cs. c \<notin> set av)"
  by (induction cs) (auto simp: list_in_set)

lemma select_font_first:
  "select_font cs av = Some f \<longleftrightarrow>
     (\<exists>i < length cs. cs ! i = f \<and> f \<in> set av \<and> (\<forall>j < i. cs ! j \<notin> set av))"
proof (induction cs)
  case Nil
  then show ?case by simp
next
  case (Cons c cs)
  show ?case
  proof (cases "c \<in> set av")
    case True
    have "(\<exists>i < length (c # cs). (c # cs) ! i = f \<and> f \<in> set av \<and> (\<forall>j < i. (c # cs) ! j \<notin> set av))
            \<longleftrightarrow> c = f"
    proof
      assume "\<exists>i < length (c # cs). (c # cs) ! i = f \<and> f \<in> set av \<and> (\<forall>j < i. (c # cs) ! j \<notin> set av)"
      then obtain i where i: "(c # cs) ! i = f" "\<forall>j < i. (c # cs) ! j \<notin> set av" by blast
      have "i = 0"
      proof (rule ccontr)
        assume "i \<noteq> 0"
        then have "(c # cs) ! 0 \<notin> set av" using i(2) by blast
        then show False using True by simp
      qed
      then show "c = f" using i(1) by simp
    next
      assume "c = f"
      then have "(c # cs) ! 0 = f \<and> f \<in> set av \<and> (\<forall>j < 0. (c # cs) ! j \<notin> set av)"
        using True by simp
      then show "\<exists>i < length (c # cs). (c # cs) ! i = f \<and> f \<in> set av \<and> (\<forall>j < i. (c # cs) ! j \<notin> set av)"
        by (intro exI[of _ 0]) simp
    qed
    then show ?thesis using True by (auto simp: list_in_set)
  next
    case False
    have "(\<exists>i < length (c # cs). (c # cs) ! i = f \<and> f \<in> set av \<and> (\<forall>j < i. (c # cs) ! j \<notin> set av))
            \<longleftrightarrow> (\<exists>i < length cs. cs ! i = f \<and> f \<in> set av \<and> (\<forall>j < i. cs ! j \<notin> set av))"
      (is "?L \<longleftrightarrow> ?R")
    proof
      assume ?L
      then obtain i where i: "i < length (c # cs)" "(c # cs) ! i = f" "f \<in> set av"
        "\<forall>j < i. (c # cs) ! j \<notin> set av" by blast
      have "i \<noteq> 0" using i(2,3) False by (cases i) auto
      then obtain k where k: "i = Suc k" by (cases i) auto
      have "\<forall>j < k. cs ! j \<notin> set av"
      proof (intro allI impI)
        fix j assume "j < k"
        then have "Suc j < i" using k by simp
        then have "(c # cs) ! Suc j \<notin> set av" using i(4) by blast
        then show "cs ! j \<notin> set av" by simp
      qed
      then show ?R using i k by (intro exI[of _ k]) simp
    next
      assume ?R
      then obtain k where k: "k < length cs" "cs ! k = f" "f \<in> set av"
        "\<forall>j < k. cs ! j \<notin> set av" by blast
      have "\<forall>j < Suc k. (c # cs) ! j \<notin> set av"
      proof (intro allI impI)
        fix j assume "j < Suc k"
        then show "(c # cs) ! j \<notin> set av" using k(4) False by (cases j) auto
      qed
      then show ?L using k by (intro exI[of _ "Suc k"]) simp
    qed
    then show ?thesis using False Cons.IH by (simp add: list_in_set)
  qed
qed

text \<open>
  C1. For every operating system identifier (so for each of the three classes) and every
  list of installed names that holds at least one candidate of the class's list, the
  function returns a candidate of that list that is equal, as a string, to an installed
  name, and no candidate before it in the list is equal to any installed name.
\<close>

theorem setup_korean_font_first_installed:
  assumes "\<exists>c \<in> set (font_candidates (system h)). c \<in> set (ttflist h)"
  shows "\<exists>i < length (font_candidates (system h)).
           fst (setup_korean_font h rc) = Some (font_candidates (system h) ! i)
           \<and> font_candidates (system h) ! i \<in> set (ttflist h)
           \<and> (\<forall>j < i. font_candidates (system h) ! j \<notin> set (ttflist h))"
proof -
  from assms have "select_font (font_candidates (system h)) (ttflist h) \<noteq> None"
    by (simp add: select_font_None)
  then obtain f where f: "select_font (font_candidates (system h)) (ttflist h) = Some f"
    by blast
  then obtain i where i: "i < length (font_candidates (system h))"
    "font_candidates (system h) ! i = f" "f \<in> set (ttflist h)"
    "\<forall>j < i. font_candidates (system h) ! j \<notin> set (ttflist h)"
    unfolding select_font_first by blast
  have "f \<in> set (font_candidates (system h))" using i(1,2) nth_mem by blast
  then have "f \<noteq> []" by (rule font_candidates_nonempty)
  then have "fst (setup_korean_font h rc) = Some f"
    using f by (simp add: setup_korean_font_def)
  then show ?thesis using i by blast
qed

theorem setup_korean_font_first_installed_witness:
  "(\<exists>c \<in> set (font_candidates ''Linux''). c \<in> set [''Liberation Sans'', ''DejaVu Sans Mono'', ''DejaVu Sans''])
   \<and> fst (setup_korean_font
      \<lparr>system = ''Linux'', ttflist = [''Liberation Sans'', ''DejaVu Sans Mono'', ''DejaVu Sans''],
       files = Map.empty\<rparr>
      \<lparr>font_family = [''sans-serif''], axes_unicode_minus = True\<rparr>) = Some ''DejaVu Sans''"
proof -
  let ?h = "\<lparr>system = ''Linux'', ttflist = [''Liberation Sans'', ''DejaVu Sans Mono'', ''DejaVu Sans''],
       files = Map.empty\<rparr>"
  have hyp: "\<exists>c \<in> set (font_candidates (system ?h)). c \<in> set (ttflist ?h)"
    by (simp add: font_candidates_def)
  show ?thesis
    using hyp setup_korean_font_first_installed [OF hyp, of "\<lparr>font_family = [''sans-serif''], axes_unicode_minus = True\<rparr>"]
    by (simp add: setup_korean_font_def font_candidates_def)
qed

lemma load_font_file_valid:
  "files h font_path = Some (FontFile n) \<Longrightarrow>
   load_font_file h rc
     = (Some n, [StWarning, StSuccess None],
        rc\<lparr>font_family := validate_stringlist n, axes_unicode_minus := False\<rparr>)"
  by (simp add: load_font_file_def get_name_def)

lemma load_font_file_invalid:
  "\<forall>n. files h font_path \<noteq> Some (FontFile n) \<Longrightarrow>
   load_font_file h rc = (None, [StWarning, StError], rc)"
  by (auto simp: load_font_file_def get_name_def split: option.splits font_file.splits)

lemma setup_no_candidate:
  "\<forall>c \<in> set (font_candidates (system h)). c \<notin> set (ttflist h) \<Longrightarrow>
   setup_korean_font h rc = load_font_file h rc"
  using select_font_None [of "font_candidates (system h)" "ttflist h"]
  by (simp add: setup_korean_font_def)

lemma setup_candidate:
  assumes "select_font (font_candidates (system h)) (ttflist h) = Some f"
  shows "setup_korean_font h rc =
     (Some f, [StSuccess (Some f)], rc\<lparr>font_family := [f], axes_unicode_minus := False\<rparr>)"
    and "validate_stringlist f = [f]"
proof -
  from assms have mem: "f \<in> set (font_candidates (system h))"
    unfolding select_font_first using nth_mem by blast
  then have "f \<noteq> []" by (rule font_candidates_nonempty)
  moreover from mem show v: "validate_stringlist f = [f]"
    by (intro validate_plain font_candidates_plain)
  ultimately show "setup_korean_font h rc =
     (Some f, [StSuccess (Some f)], rc\<lparr>font_family := [f], axes_unicode_minus := False\<rparr>)"
    using assms by (simp add: setup_korean_font_def)
qed

text \<open>
  C2. When no installed name is equal to a candidate of any of the three lists and the
  bundled file is absent, unreadable or malformed, the function returns \<open>None\<close> and the
  configuration after the call is the configuration before it: neither the font family
  nor the minus-sign flag is assigned. The messages are the warning and the error.
\<close>

theorem setup_korean_font_failure:
  assumes disjoint:
    "set (ttflist h) \<inter>
       (set (font_candidates ''Windows'') \<union> set (font_candidates ''Darwin'')
        \<union> set (font_candidates ''Linux'')) = {}"
    and no_font: "files h font_path = None \<or> files h font_path = Some Unreadable
                  \<or> files h font_path = Some Malformed"
  shows "fst (setup_korean_font h rc) = None
         \<and> snd (snd (setup_korean_font h rc)) = rc
         \<and> fst (snd (setup_korean_font h rc)) = [StWarning, StError]"
proof -
  have "set (font_candidates (system h)) \<subseteq>
      set (font_candidates ''Windows'') \<union> set (font_candidates ''Darwin'')
        \<union> set (font_candidates ''Linux'')"
    by (simp add: font_candidates_def)
  with disjoint have "\<forall>c \<in> set (font_candidates (system h)). c \<notin> set (ttflist h)"
    by blast
  then have "setup_korean_font h rc = load_font_file h rc"
    by (rule setup_no_candidate)
  moreover from no_font have "\<forall>n. files h font_path \<noteq> Some (FontFile n)" by auto
  then have "load_font_file h rc = (None, [StWarning, StError], rc)"
    by (rule load_font_file_invalid)
  ultimately show ?thesis by simp
qed

theorem setup_korean_font_failure_witness:
  "setup_korean_font
      \<lparr>system = ''Linux'', ttflist = [''Helvetica'', ''DejaVu Sans Mono''],
       files = [font_path \<mapsto> Malformed]\<rparr>
      \<lparr>font_family = [''sans-serif''], axes_unicode_minus = True\<rparr>
    = (None, [StWarning, StError], \<lparr>font_family = [''sans-serif''], axes_unicode_minus = True\<rparr>)"
proof -
  let ?h = "\<lparr>system = ''Linux'', ttflist = [''Helvetica'', ''DejaVu Sans Mono''],
       files = [font_path \<mapsto> Malformed]\<rparr>"
  have d: "set (ttflist ?h) \<inter>
       (set (font_candidates ''Windows'') \<union> set (font_candidates ''Darwin'')
        \<union> set (font_candidates ''Linux'')) = {}"
    by (simp add: font_candidates_def)
  have f: "files ?h font_path = None \<or> files ?h font_path = Some Unreadable
                  \<or> files ?h font_path = Some Malformed"
    by simp
  show ?thesis
    using setup_korean_font_failure [OF d f, of "\<lparr>font_family = [''sans-serif''], axes_unicode_minus = True\<rparr>"]
    by (simp add: prod_eq_iff)
qed




text \<open>
  C4. The candidate list is determined by the operating system identifier alone:
  \<open>Windows\<close> gives the Windows list, \<open>Darwin\<close> the macOS list, and any other identifier
  the Linux list. On \<open>Darwin\<close> with the installed names Apple SD Gothic Neo and Helvetica
  (in any order, with any repetition) the function returns Apple SD Gothic Neo; on
  \<open>Windows\<close> with Malgun Gothic alone it returns Malgun Gothic.
\<close>

theorem font_candidates_by_system:
  "font_candidates ''Windows'' = [''Malgun Gothic'', ''Microsoft YaHei'', ''SimHei'']
   \<and> font_candidates ''Darwin'' = [''AppleGothic'', ''Apple SD Gothic Neo'', ''Noto Sans CJK KR'']
   \<and> (\<forall>sys. sys \<noteq> ''Windows'' \<and> sys \<noteq> ''Darwin'' \<longrightarrow>
         font_candidates sys = [''Noto Sans CJK KR'', ''DejaVu Sans'', ''Liberation Sans''])
   \<and> (\<forall>av fs rc. set av = {''Apple SD Gothic Neo'', ''Helvetica''} \<longrightarrow>
         fst (setup_korean_font \<lparr>system = ''Darwin'', ttflist = av, files = fs\<rparr> rc)
           = Some ''Apple SD Gothic Neo'')
   \<and> (\<forall>av fs rc. set av = {''Malgun Gothic''} \<longrightarrow>
         fst (setup_korean_font \<lparr>system = ''Windows'', ttflist = av, files = fs\<rparr> rc)
           = Some ''Malgun Gothic'')"
proof (intro conjI allI impI)
  show "font_candidates ''Windows'' = [''Malgun Gothic'', ''Microsoft YaHei'', ''SimHei'']"
    by (simp add: font_candidates_def)
  show "font_candidates ''Darwin'' = [''AppleGothic'', ''Apple SD Gothic Neo'', ''Noto Sans CJK KR'']"
    by (simp add: font_candidates_def)
next
  fix sys :: string assume "sys \<noteq> ''Windows'' \<and> sys \<noteq> ''Darwin''"
  then show "font_candidates sys = [''Noto Sans CJK KR'', ''DejaVu Sans'', ''Liberation Sans'']"
    by (simp add: font_candidates_def)
next
  fix av :: "string list" and fs :: "string \<rightharpoonup> font_file" and rc :: rcParams
  assume av: "set av = {''Apple SD Gothic Neo'', ''Helvetica''}"
  have "select_font (font_candidates ''Darwin'') av = Some ''Apple SD Gothic Neo''"
    by (simp add: font_candidates_def list_in_set av)
  then show "fst (setup_korean_font \<lparr>system = ''Darwin'', ttflist = av, files = fs\<rparr> rc)
           = Some ''Apple SD Gothic Neo''"
    by (simp add: setup_korean_font_def)
next
  fix av :: "string list" and fs :: "string \<rightharpoonup> font_file" and rc :: rcParams
  assume av: "set av = {''Malgun Gothic''}"
  have "select_font (font_candidates ''Windows'') av = Some ''Malgun Gothic''"
    by (simp add: font_candidates_def list_in_set av)
  then show "fst (setup_korean_font \<lparr>system = ''Windows'', ttflist = av, files = fs\<rparr> rc)
           = Some ''Malgun Gothic''"
    by (simp add: setup_korean_font_def)
qed

theorem font_candidates_by_system_witness:
  "font_candidates ''FreeBSD'' = [''Noto Sans CJK KR'', ''DejaVu Sans'', ''Liberation Sans'']
   \<and> fst (setup_korean_font
        \<lparr>system = ''Darwin'', ttflist = [''Helvetica'', ''Apple SD Gothic Neo'', ''Helvetica''],
         files = Map.empty\<rparr> \<lparr>font_family = [''sans-serif''], axes_unicode_minus = True\<rparr>)
       = Some ''Apple SD Gothic Neo''
   \<and> fst (setup_korean_font
        \<lparr>system = ''Windows'', ttflist = [''Malgun Gothic''], files = Map.empty\<rparr>
        \<lparr>font_family = [''sans-serif''], axes_unicode_minus = True\<rparr>)
       = Some ''Malgun Gothic''"
proof -
  note t = font_candidates_by_system
  note other = t [THEN conjunct2, THEN conjunct2, THEN conjunct1, rule_format]
  note darwin = t [THEN conjunct2, THEN conjunct2, THEN conjunct2, THEN conjunct1, rule_format]
  note windows = t [THEN conjunct2, THEN conjunct2, THEN conjunct2, THEN conjunct2, rule_format]
  have a: "''FreeBSD'' \<noteq> ''Windows'' \<and> ''FreeBSD'' \<noteq> ''Darwin''" by simp
  have b: "set [''Helvetica'', ''Apple SD Gothic Neo'', ''Helvetica'']
             = {''Apple SD Gothic Neo'', ''Helvetica''}" by auto
  have c: "set [''Malgun Gothic''] = {''Malgun Gothic''}" by simp
  show ?thesis
    by (intro conjI) (rule other [OF a], rule darwin [OF b], rule windows [OF c])
qed

text \<open>
  C5. Whenever the function succeeds, because an installed name is equal to a candidate
  of the list in use, or because the bundled file is a font file, it returns a name,
  the minus-sign flag is \<open>False\<close> after the call, and the global font family is set as
  well (to the validated form of the name returned).
\<close>

theorem setup_korean_font_unicode_minus:
  assumes "(\<exists>c \<in> set (font_candidates (system h)). c \<in> set (ttflist h))
           \<or> (\<exists>n. files h font_path = Some (FontFile n))"
  shows "fst (setup_korean_font h rc) \<noteq> None
         \<and> axes_unicode_minus (snd (snd (setup_korean_font h rc))) = False
         \<and> Some (font_family (snd (snd (setup_korean_font h rc))))
             = map_option validate_stringlist (fst (setup_korean_font h rc))"
proof (cases "select_font (font_candidates (system h)) (ttflist h)")
  case None
  then have no: "\<forall>c \<in> set (font_candidates (system h)). c \<notin> set (ttflist h)"
    by (simp add: select_font_None)
  with assms obtain n where n: "files h font_path = Some (FontFile n)" by blast
  from no have "setup_korean_font h rc = load_font_file h rc" by (rule setup_no_candidate)
  then show ?thesis using load_font_file_valid [OF n] by simp
next
  case (Some f)
  then show ?thesis using setup_candidate [OF Some] by simp
qed

theorem setup_korean_font_unicode_minus_witness:
  "axes_unicode_minus (snd (snd (setup_korean_font
      \<lparr>system = ''Windows'', ttflist = [''Arial'', ''SimHei''], files = Map.empty\<rparr> \<lparr>font_family = [''sans-serif''], axes_unicode_minus = True\<rparr>))) = False
   \<and> axes_unicode_minus (snd (snd (setup_korean_font
      \<lparr>system = ''Windows'', ttflist = [''Arial''],
       files = [''NotoSansKR-Regular.ttf'' \<mapsto> FontFile ''Noto Sans KR'']\<rparr> \<lparr>font_family = [''sans-serif''], axes_unicode_minus = True\<rparr>))) = False"
proof -
  let ?h1 = "\<lparr>system = ''Windows'', ttflist = [''Arial'', ''SimHei''], files = Map.empty\<rparr>"
  let ?h2 = "\<lparr>system = ''Windows'', ttflist = [''Arial''],
       files = [''NotoSansKR-Regular.ttf'' \<mapsto> FontFile ''Noto Sans KR'']\<rparr>"
  have a: "(\<exists>c \<in> set (font_candidates (system ?h1)). c \<in> set (ttflist ?h1))
           \<or> (\<exists>n. files ?h1 font_path = Some (FontFile n))"
    by (simp add: font_candidates_def)
  have b: "(\<exists>c \<in> set (font_candidates (system ?h2)). c \<in> set (ttflist ?h2))
           \<or> (\<exists>n. files ?h2 font_path = Some (FontFile n))"
    by (simp add: font_path_def)
  note t1 = setup_korean_font_unicode_minus [OF a, of "\<lparr>font_family = [''sans-serif''], axes_unicode_minus = True\<rparr>"]
  note t2 = setup_korean_font_unicode_minus [OF b, of "\<lparr>font_family = [''sans-serif''], axes_unicode_minus = True\<rparr>"]
  show ?thesis
    by (intro conjI) (rule t1 [THEN conjunct2, THEN conjunct1], rule t2 [THEN conjunct2, THEN conjunct1])
qed

lemma setup_korean_font_outcome:
  "setup_korean_font h rc = (None, [StWarning, StError], rc)
   \<or> (\<exists>f m. setup_korean_font h rc
              = (Some f, m, rc\<lparr>font_family := validate_stringlist f, axes_unicode_minus := False\<rparr>))"
proof (cases "select_font (font_candidates (system h)) (ttflist h)")
  case None
  then have "\<forall>c \<in> set (font_candidates (system h)). c \<notin> set (ttflist h)"
    by (simp add: select_font_None)
  then have eq: "setup_korean_font h rc = load_font_file h rc" by (rule setup_no_candidate)
  show ?thesis
  proof (cases "\<exists>n. files h font_path = Some (FontFile n)")
    case True
    then obtain n where n: "files h font_path = Some (FontFile n)" by blast
    show ?thesis using eq load_font_file_valid [OF n, of rc] by simp
  next
    case False
    then have "load_font_file h rc = (None, [StWarning, StError], rc)"
      by (intro load_font_file_invalid) simp
    then show ?thesis using eq by simp
  qed
next
  case (Some f)
  then show ?thesis using setup_candidate(1) [OF Some, of rc] setup_candidate(2) [OF Some] by simp
qed

lemma setup_korean_font_result_independent:
  "fst (setup_korean_font h rc1) = fst (setup_korean_font h rc2)
   \<and> fst (snd (setup_korean_font h rc1)) = fst (snd (setup_korean_font h rc2))"
proof (cases "select_font (font_candidates (system h)) (ttflist h)")
  case None
  then have "\<forall>c \<in> set (font_candidates (system h)). c \<notin> set (ttflist h)"
    by (simp add: select_font_None)
  then have eq: "\<And>rc. setup_korean_font h rc = load_font_file h rc" by (rule setup_no_candidate)
  show ?thesis
  proof (cases "\<exists>n. files h font_path = Some (FontFile n)")
    case True
    then obtain n where n: "files h font_path = Some (FontFile n)" by blast
    show ?thesis using eq load_font_file_valid [OF n] by simp
  next
    case False
    then have "\<And>rc. load_font_file h rc = (None, [StWarning, StError], rc)"
      by (intro load_font_file_invalid) simp
    then show ?thesis using eq by simp
  qed
next
  case (Some f)
  then show ?thesis using setup_candidate(1) [OF Some] by simp
qed




text \<open>
  C8. The value the function returns and the messages it writes depend on the host
  (operating system identifier, installed names, bundled file) only, not on the
  configuration it starts from; and a second invocation on the same host, started from
  the configuration the first one left, returns the same value, writes the same
  messages and leaves the same configuration. The same holds for the memoised function
  the script calls: a second call returns the same value and leaves the process as the
  first call left it.
\<close>

theorem setup_korean_font_idempotent:
  "fst (setup_korean_font h rc1) = fst (setup_korean_font h rc2)
   \<and> setup_korean_font h (snd (snd (setup_korean_font h rc))) = setup_korean_font h rc
   \<and> setup_korean_font_cached h (snd (snd (setup_korean_font_cached h p)))
       = setup_korean_font_cached h p"
proof (intro conjI)
  show "fst (setup_korean_font h rc1) = fst (setup_korean_font h rc2)"
    using setup_korean_font_result_independent [of h rc1 rc2] by simp
next
  let ?rc' = "snd (snd (setup_korean_font h rc))"
  from setup_korean_font_outcome [of h rc]
  show "setup_korean_font h ?rc' = setup_korean_font h rc"
  proof
    assume "setup_korean_font h rc = (None, [StWarning, StError], rc)"
    then show ?thesis by simp
  next
    assume "\<exists>f m. setup_korean_font h rc
              = (Some f, m, rc\<lparr>font_family := validate_stringlist f, axes_unicode_minus := False\<rparr>)"
    then obtain f m where fm: "setup_korean_font h rc
              = (Some f, m, rc\<lparr>font_family := validate_stringlist f, axes_unicode_minus := False\<rparr>)" by blast
    then have rc': "?rc' = rc\<lparr>font_family := validate_stringlist f, axes_unicode_minus := False\<rparr>" by simp
    have "fst (setup_korean_font h ?rc') = Some f
          \<and> fst (snd (setup_korean_font h ?rc')) = m"
      using setup_korean_font_result_independent [of h ?rc' rc] fm by simp
    moreover from setup_korean_font_outcome [of h ?rc'] calculation
    have "snd (snd (setup_korean_font h ?rc')) = ?rc'\<lparr>font_family := validate_stringlist f, axes_unicode_minus := False\<rparr>"
      by auto
    ultimately have "setup_korean_font h ?rc'
        = (Some f, m, ?rc'\<lparr>font_family := validate_stringlist f, axes_unicode_minus := False\<rparr>)"
      by (simp add: prod_eq_iff)
    then show ?thesis using fm rc' by simp
  qed
next
  show "setup_korean_font_cached h (snd (snd (setup_korean_font_cached h p)))
       = setup_korean_font_cached h p"
    by (auto simp: setup_korean_font_cached_def split: option.splits prod.splits)
qed

theorem setup_korean_font_idempotent_witness:
  "setup_korean_font
      \<lparr>system = ''Linux'', ttflist = [''DejaVu Sans''], files = Map.empty\<rparr>
      (snd (snd (setup_korean_font
         \<lparr>system = ''Linux'', ttflist = [''DejaVu Sans''], files = Map.empty\<rparr>
         \<lparr>font_family = [''sans-serif''], axes_unicode_minus = True\<rparr>)))
   = (Some ''DejaVu Sans'', [StSuccess (Some ''DejaVu Sans'')],
      \<lparr>font_family = [''DejaVu Sans''], axes_unicode_minus = False\<rparr>)"
proof -
  let ?h = "\<lparr>system = ''Linux'', ttflist = [''DejaVu Sans''], files = Map.empty\<rparr>"
  let ?rc = "\<lparr>font_family = [''sans-serif''], axes_unicode_minus = True\<rparr>"
  have "setup_korean_font ?h ?rc
      = (Some ''DejaVu Sans'', [StSuccess (Some ''DejaVu Sans'')],
         \<lparr>font_family = [''DejaVu Sans''], axes_unicode_minus = False\<rparr>)"
    by (simp add: setup_korean_font_def font_candidates_def validate_plain plain_name_def is_space_def)
  then show ?thesis
    using setup_korean_font_idempotent [of ?h ?rc ?rc ?rc "fresh_process ?rc",
        THEN conjunct2, THEN conjunct1]
    by simp
qed

section \<open>Properties of a script run\<close>

lemma cached_fresh:
  "setup_korean_font_cached h (fresh_process rc0)
     = (fst (setup_korean_font h rc0), fst (snd (setup_korean_font h rc0)), after_setup h rc0)"
  by (simp add: setup_korean_font_cached_def fresh_process_def after_setup_def split: prod.splits)

lemma cached_after_setup:
  "setup_korean_font_cached h (after_setup h rc0)
     = (fst (setup_korean_font h rc0), fst (snd (setup_korean_font h rc0)), after_setup h rc0)"
  by (simp add: setup_korean_font_cached_def after_setup_def)

lemma rcParams_after_setup: "rcParams (after_setup h rc0) = snd (snd (setup_korean_font h rc0))"
  by (simp add: after_setup_def)

lemma main_fresh: "main h ct (fresh_process rc0) = (page h ct rc0, after_setup h rc0)"
  by (simp add: main_def cached_fresh page_def rcParams_after_setup)

lemma main_after_setup: "main h ct (after_setup h rc0) = (page h ct rc0, after_setup h rc0)"
  by (simp add: main_def cached_after_setup page_def rcParams_after_setup)

lemma session_after_setup: "session h cs (after_setup h rc0) = after_setup h rc0"
  by (induction cs) (simp_all add: main_after_setup)

lemma session_fresh:
  "session h cs (fresh_process rc0) = (if cs = [] then fresh_process rc0 else after_setup h rc0)"
  by (cases cs) (simp_all add: main_fresh session_after_setup)

lemma main_session:
  "main h ct (session h cs (fresh_process rc0)) = (page h ct rc0, after_setup h rc0)"
  by (simp add: session_fresh main_fresh main_after_setup)

lemma setup_messages:
  "set (fst (snd (setup_korean_font h rc))) \<subseteq> {StWarning, StError} \<union> range StSuccess"
proof (cases "select_font (font_candidates (system h)) (ttflist h)")
  case None
  then have "\<forall>c \<in> set (font_candidates (system h)). c \<notin> set (ttflist h)"
    by (simp add: select_font_None)
  then have eq: "setup_korean_font h rc = load_font_file h rc" by (rule setup_no_candidate)
  show ?thesis
  proof (cases "\<exists>n. files h font_path = Some (FontFile n)")
    case True
    then obtain n where n: "files h font_path = Some (FontFile n)" by blast
    show ?thesis using eq load_font_file_valid [OF n, of rc] by simp
  next
    case False
    then have "load_font_file h rc = (None, [StWarning, StError], rc)"
      by (intro load_font_file_invalid) simp
    then show ?thesis using eq by simp
  qed
next
  case (Some f)
  then show ?thesis using setup_candidate(1) [OF Some, of rc] by simp
qed

lemma map_filter_append: "List.map_filter f (xs @ ys) = List.map_filter f xs @ List.map_filter f ys"
  by (simp add: List.map_filter_def)

lemma map_filter_none: "(\<And>x. x \<in> set xs \<Longrightarrow> f x = None) \<Longrightarrow> List.map_filter f xs = []"
  by (induction xs) simp_all

lemma messages_no_chart:
  "List.map_filter chart_family (fst (snd (setup_korean_font h rc))) = []"
  "List.map_filter pyplot_config (fst (snd (setup_korean_font h rc))) = []"
  "List.map_filter plotly_family (fst (snd (setup_korean_font h rc))) = []"
  "List.map_filter pie_wedges (fst (snd (setup_korean_font h rc))) = []"
  "List.map_filter total_metric (fst (snd (setup_korean_font h rc))) = []"
  using setup_messages [of h rc] by (auto intro!: map_filter_none)

lemma font_info_no_chart:
  "List.map_filter chart_family (font_info h n rc) = []"
  "List.map_filter pyplot_config (font_info h n rc) = []"
  "List.map_filter plotly_family (font_info h n rc) = []"
  "List.map_filter pie_wedges (font_info h n rc) = []"
  "List.map_filter total_metric (font_info h n rc) = []"
  by (auto intro!: map_filter_none simp: font_info_def Let_def split: if_splits)

lemma data_column_reads:
  "List.map_filter chart_family (data_column d) = []"
  "List.map_filter pyplot_config (data_column d) = []"
  "List.map_filter plotly_family (data_column d) = []"
  "List.map_filter pie_wedges (data_column d) = []"
  "List.map_filter total_metric (data_column d) = [sum_list (population d)]"
  by (simp_all add: data_column_def)

lemma plotly_layout_families:
  "validate_stringlist ''Malgun Gothic, AppleGothic, Noto Sans CJK KR''
     = [''Malgun Gothic'', ''AppleGothic'', ''Noto Sans CJK KR'']"
  by (simp add: validate_stringlist_def strip_def is_space_def)

lemma plotly_area_reads:
  "List.map_filter chart_family (plotly_area d)
     = [[''Malgun Gothic'', ''AppleGothic'', ''Noto Sans CJK KR''],
        [''Malgun Gothic'', ''AppleGothic'', ''Noto Sans CJK KR'']]"
  "List.map_filter pyplot_config (plotly_area d) = []"
  "List.map_filter plotly_family (plotly_area d)
     = [''Malgun Gothic, AppleGothic, Noto Sans CJK KR'', ''Malgun Gothic, AppleGothic, Noto Sans CJK KR'']"
  "List.map_filter pie_wedges (plotly_area d) = []"
  "List.map_filter total_metric (plotly_area d) = []"
  by (simp_all add: plotly_area_def plotly_layout_families)

lemma chart_area_reads:
  "List.map_filter chart_family (chart_area ct d rc) = [font_family rc]"
  "List.map_filter pyplot_config (chart_area ct d rc) = [rc]"
  "List.map_filter plotly_family (chart_area ct d rc) = []"
  "List.map_filter total_metric (chart_area ct d rc) = []"
  "List.map_filter pie_wedges (chart_area PieChart d rc) = [pie (population d) (region d)]"
  by (cases ct; simp add: chart_area_def)+

lemmas page_reads = page_def map_filter_append messages_no_chart
  font_info_no_chart data_column_reads plotly_area_reads chart_area_reads

lemma page_chart_family:
  "List.map_filter chart_family (page h ct rc0)
    = [font_family (snd (snd (setup_korean_font h rc0))),
       [''Malgun Gothic'', ''AppleGothic'', ''Noto Sans CJK KR''],
       [''Malgun Gothic'', ''AppleGothic'', ''Noto Sans CJK KR'']]"
  by (simp add: page_reads)

lemma page_pyplot_config:
  "List.map_filter pyplot_config (page h ct rc0) = [snd (snd (setup_korean_font h rc0))]"
  by (simp add: page_reads)

lemma page_plotly_family:
  "List.map_filter plotly_family (page h ct rc0)
    = [''Malgun Gothic, AppleGothic, Noto Sans CJK KR'', ''Malgun Gothic, AppleGothic, Noto Sans CJK KR'']"
  by (simp add: page_reads)

lemma page_pie_wedges:
  "List.map_filter pie_wedges (page h PieChart rc0) = [pie (population df) (region df)]"
  by (simp add: page_reads)

lemma page_total_metric:
  "List.map_filter total_metric (page h ct rc0) = [sum_list (population df)]"
  by (simp add: page_reads)

lemma population_total: "sum_list (population df) = 22860013"
  by (simp add: df_def)

lemma pie_df:
  "length (pie (population df) (region df)) = 8"
  "map fst (pie (population df) (region df)) = region df"
  "map snd (pie (population df) (region df)) = population df"
  by (simp_all add: pie_def df_def)

text \<open>
  C7, as stated, fails: on the first run with the pie chart selected, neither the total
  population metric nor the sum of the wedge values is 24,860,013.
\<close>

theorem pie_total_not_24860013:
  "List.map_filter total_metric
      (fst (main \<lparr>system = ''Linux'', ttflist = [''DejaVu Sans''], files = Map.empty\<rparr> PieChart
         (fresh_process \<lparr>font_family = [''sans-serif''], axes_unicode_minus = True\<rparr>)))
     \<noteq> [24860013]
   \<and> map wedge_total (List.map_filter pie_wedges
      (fst (main \<lparr>system = ''Linux'', ttflist = [''DejaVu Sans''], files = Map.empty\<rparr> PieChart
         (fresh_process \<lparr>font_family = [''sans-serif''], axes_unicode_minus = True\<rparr>))))
     \<noteq> [24860013]"
  by (simp add: main_fresh page_pie_wedges page_total_metric wedge_total_def pie_df population_total)

text \<open>
  C7, amended. In every run with the pie chart selected (the first of a process or a
  later one), the page has one pie with eight wedges, labelled with the eight regions
  in table order; the page shows one total population metric, equal to the sum of the
  wedge values; and that sum is 22,860,013.
\<close>

theorem pie_wedges_sum_to_total:
  "List.map_filter pie_wedges (fst (main h PieChart (session h cs (fresh_process rc0))))
     = [pie (population df) (region df)]
   \<and> length (pie (population df) (region df)) = 8
   \<and> map fst (pie (population df) (region df)) = region df
   \<and> List.map_filter total_metric (fst (main h PieChart (session h cs (fresh_process rc0))))
     = [wedge_total (pie (population df) (region df))]
   \<and> wedge_total (pie (population df) (region df)) = 22860013"
  by (simp add: main_session page_pie_wedges page_total_metric wedge_total_def pie_df population_total)

theorem pie_wedges_sum_to_total_witness:
  "map wedge_total (List.map_filter pie_wedges
      (fst (main \<lparr>system = ''Windows'', ttflist = [''Malgun Gothic''], files = Map.empty\<rparr> PieChart
         (session \<lparr>system = ''Windows'', ttflist = [''Malgun Gothic''], files = Map.empty\<rparr>
            [BarChart] (fresh_process \<lparr>font_family = [''sans-serif''], axes_unicode_minus = True\<rparr>)))))
     = [22860013]
   \<and> List.map_filter total_metric
      (fst (main \<lparr>system = ''Windows'', ttflist = [''Malgun Gothic''], files = Map.empty\<rparr> PieChart
         (session \<lparr>system = ''Windows'', ttflist = [''Malgun Gothic''], files = Map.empty\<rparr>
            [BarChart] (fresh_process \<lparr>font_family = [''sans-serif''], axes_unicode_minus = True\<rparr>))))
     = [22860013]"
  using pie_wedges_sum_to_total
    [of "\<lparr>system = ''Windows'', ttflist = [''Malgun Gothic''], files = Map.empty\<rparr>" "[BarChart]"
        "\<lparr>font_family = [''sans-serif''], axes_unicode_minus = True\<rparr>"]
  by simp

text \<open>
  C6, as stated, fails. On a Linux host with DejaVu Sans installed the set-up returns
  DejaVu Sans and the global font family is DejaVu Sans after the run, but the two
  Plotly figures of the same page are drawn with the family list
  \<open>Malgun Gothic, AppleGothic, Noto Sans CJK KR\<close> of their own layout: the charts of the
  page are not all drawn with the configured family, and the global configuration does
  not follow the override.
\<close>

theorem plotly_fonts_not_synchronised:
  "fst (setup_korean_font_cached
      \<lparr>system = ''Linux'', ttflist = [''DejaVu Sans''], files = Map.empty\<rparr>
      (fresh_process \<lparr>font_family = [''sans-serif''], axes_unicode_minus = True\<rparr>))
     = Some ''DejaVu Sans''
   \<and> rcParams (snd (main \<lparr>system = ''Linux'', ttflist = [''DejaVu Sans''], files = Map.empty\<rparr> PieChart
         (fresh_process \<lparr>font_family = [''sans-serif''], axes_unicode_minus = True\<rparr>)))
     = \<lparr>font_family = [''DejaVu Sans''], axes_unicode_minus = False\<rparr>
   \<and> List.map_filter plotly_family
      (fst (main \<lparr>system = ''Linux'', ttflist = [''DejaVu Sans''], files = Map.empty\<rparr> PieChart
         (fresh_process \<lparr>font_family = [''sans-serif''], axes_unicode_minus = True\<rparr>)))
     = [''Malgun Gothic, AppleGothic, Noto Sans CJK KR'', ''Malgun Gothic, AppleGothic, Noto Sans CJK KR'']
   \<and> List.map_filter chart_family
      (fst (main \<lparr>system = ''Linux'', ttflist = [''DejaVu Sans''], files = Map.empty\<rparr> PieChart
         (fresh_process \<lparr>font_family = [''sans-serif''], axes_unicode_minus = True\<rparr>)))
     = [[''DejaVu Sans''], [''Malgun Gothic'', ''AppleGothic'', ''Noto Sans CJK KR''],
        [''Malgun Gothic'', ''AppleGothic'', ''Noto Sans CJK KR'']]
   \<and> \<not> fonts_synchronised
        (rcParams (snd (main \<lparr>system = ''Linux'', ttflist = [''DejaVu Sans''], files = Map.empty\<rparr> PieChart
           (fresh_process \<lparr>font_family = [''sans-serif''], axes_unicode_minus = True\<rparr>))))
        (fst (main \<lparr>system = ''Linux'', ttflist = [''DejaVu Sans''], files = Map.empty\<rparr> PieChart
           (fresh_process \<lparr>font_family = [''sans-serif''], axes_unicode_minus = True\<rparr>)))"
proof -
  let ?h = "\<lparr>system = ''Linux'', ttflist = [''DejaVu Sans''], files = Map.empty\<rparr>"
  let ?rc = "\<lparr>font_family = [''sans-serif''], axes_unicode_minus = True\<rparr>"
  have s: "setup_korean_font ?h ?rc
      = (Some ''DejaVu Sans'', [StSuccess (Some ''DejaVu Sans'')],
         \<lparr>font_family = [''DejaVu Sans''], axes_unicode_minus = False\<rparr>)"
    by (simp add: setup_korean_font_def font_candidates_def validate_plain plain_name_def
        is_space_def)
  have a: "fst (setup_korean_font_cached ?h (fresh_process ?rc)) = Some ''DejaVu Sans''"
    by (simp add: cached_fresh s)
  have b: "rcParams (snd (main ?h PieChart (fresh_process ?rc)))
      = \<lparr>font_family = [''DejaVu Sans''], axes_unicode_minus = False\<rparr>"
    by (simp add: main_fresh rcParams_after_setup s)
  have p: "List.map_filter plotly_family (fst (main ?h PieChart (fresh_process ?rc)))
     = [''Malgun Gothic, AppleGothic, Noto Sans CJK KR'', ''Malgun Gothic, AppleGothic, Noto Sans CJK KR'']"
    by (simp add: main_fresh page_plotly_family)
  have c: "List.map_filter chart_family (fst (main ?h PieChart (fresh_process ?rc)))
     = [[''DejaVu Sans''], [''Malgun Gothic'', ''AppleGothic'', ''Noto Sans CJK KR''],
        [''Malgun Gothic'', ''AppleGothic'', ''Noto Sans CJK KR'']]"
    by (simp add: main_fresh page_chart_family s)
  have "StPlotly ''Malgun Gothic, AppleGothic, Noto Sans CJK KR''
          (PlotlyBar (zip (region df) (population df)))
        \<in> set (fst (main ?h PieChart (fresh_process ?rc)))"
    by (simp add: main_fresh page_def plotly_area_def)
  then have d: "\<not> fonts_synchronised (rcParams (snd (main ?h PieChart (fresh_process ?rc))))
        (fst (main ?h PieChart (fresh_process ?rc)))"
    unfolding fonts_synchronised_def list_all_iff b
    by (force simp: plotly_layout_families)
  from a b p c d show ?thesis by (intro conjI)
qed

text \<open>
  C6, amended. In every run of the script, the first of a process or a later one:
  \<^item> the value the set-up returns is the value its body computed at the first run;
  \<^item> the global configuration at the end of the run is the configuration the body
    left, so no chart step changes it;
  \<^item> the matplotlib figure of the run is drawn under that configuration;
  \<^item> when the set-up returned a name, that configuration is the starting one with the
    validated name as font family and the minus-sign flag off;
  \<^item> when the set-up failed, that configuration is the starting one, unchanged: the
    figure is drawn under the defaults;
  \<^item> the two Plotly figures are drawn with the fixed family list of their own layout,
    whatever the set-up returned;
  \<^item> the page begins with the messages of the set-up, none of which is a chart: every
    chart comes after the set-up.
\<close>

theorem main_draws_after_setup:
  "fst (setup_korean_font_cached h (session h cs (fresh_process rc0)))
     = fst (setup_korean_font h rc0)
   \<and> rcParams (snd (main h ct (session h cs (fresh_process rc0))))
     = snd (snd (setup_korean_font h rc0))
   \<and> List.map_filter pyplot_config (fst (main h ct (session h cs (fresh_process rc0))))
     = [rcParams (snd (main h ct (session h cs (fresh_process rc0))))]
   \<and> (\<forall>name. fst (setup_korean_font h rc0) = Some name \<longrightarrow>
        List.map_filter pyplot_config (fst (main h ct (session h cs (fresh_process rc0))))
          = [rc0\<lparr>font_family := validate_stringlist name, axes_unicode_minus := False\<rparr>])
   \<and> (fst (setup_korean_font h rc0) = None \<longrightarrow>
        rcParams (snd (main h ct (session h cs (fresh_process rc0)))) = rc0
        \<and> List.map_filter pyplot_config (fst (main h ct (session h cs (fresh_process rc0))))
          = [rc0])
   \<and> List.map_filter plotly_family (fst (main h ct (session h cs (fresh_process rc0))))
     = [''Malgun Gothic, AppleGothic, Noto Sans CJK KR'',
        ''Malgun Gothic, AppleGothic, Noto Sans CJK KR'']
   \<and> take (length (fst (snd (setup_korean_font h rc0))))
        (fst (main h ct (session h cs (fresh_process rc0))))
     = fst (snd (setup_korean_font h rc0))
   \<and> List.map_filter chart_family (fst (snd (setup_korean_font h rc0))) = []"
proof (intro conjI allI impI)
  show "take (length (fst (snd (setup_korean_font h rc0))))
        (fst (main h ct (session h cs (fresh_process rc0))))
     = fst (snd (setup_korean_font h rc0))"
    by (simp add: main_session page_def)
  show "List.map_filter chart_family (fst (snd (setup_korean_font h rc0))) = []"
    by (rule messages_no_chart)
  show "fst (setup_korean_font_cached h (session h cs (fresh_process rc0)))
     = fst (setup_korean_font h rc0)"
    by (simp add: session_fresh cached_fresh cached_after_setup)
  show "rcParams (snd (main h ct (session h cs (fresh_process rc0))))
     = snd (snd (setup_korean_font h rc0))"
    by (simp add: main_session rcParams_after_setup)
  show "List.map_filter pyplot_config (fst (main h ct (session h cs (fresh_process rc0))))
     = [rcParams (snd (main h ct (session h cs (fresh_process rc0))))]"
    by (simp add: main_session rcParams_after_setup page_pyplot_config)
  show "List.map_filter plotly_family (fst (main h ct (session h cs (fresh_process rc0))))
     = [''Malgun Gothic, AppleGothic, Noto Sans CJK KR'',
        ''Malgun Gothic, AppleGothic, Noto Sans CJK KR'']"
    by (simp add: main_session page_plotly_family)
next
  fix name assume "fst (setup_korean_font h rc0) = Some name"
  then have "snd (snd (setup_korean_font h rc0))
      = rc0\<lparr>font_family := validate_stringlist name, axes_unicode_minus := False\<rparr>"
    using setup_korean_font_outcome [of h rc0] by auto
  then show "List.map_filter pyplot_config (fst (main h ct (session h cs (fresh_process rc0))))
          = [rc0\<lparr>font_family := validate_stringlist name, axes_unicode_minus := False\<rparr>]"
    by (simp add: main_session page_pyplot_config)
next
  assume "fst (setup_korean_font h rc0) = None"
  then have unchanged: "snd (snd (setup_korean_font h rc0)) = rc0"
    using setup_korean_font_outcome [of h rc0] by auto
  then show "rcParams (snd (main h ct (session h cs (fresh_process rc0)))) = rc0"
    by (simp add: main_session rcParams_after_setup)
  from unchanged
  show "List.map_filter pyplot_config (fst (main h ct (session h cs (fresh_process rc0))))
          = [rc0]"
    by (simp add: main_session page_pyplot_config)
qed

theorem main_draws_after_setup_witness:
  "fst (setup_korean_font \<lparr>system = ''Darwin'', ttflist = [''AppleGothic''], files = Map.empty\<rparr> \<lparr>font_family = [''sans-serif''], axes_unicode_minus = True\<rparr>)
     = Some ''AppleGothic''
   \<and> List.map_filter pyplot_config
       (fst (main \<lparr>system = ''Darwin'', ttflist = [''AppleGothic''], files = Map.empty\<rparr> BarChart
         (session \<lparr>system = ''Darwin'', ttflist = [''AppleGothic''], files = Map.empty\<rparr>
            [PieChart, Heatmap] (fresh_process \<lparr>font_family = [''sans-serif''], axes_unicode_minus = True\<rparr>))))
     = [\<lparr>font_family = [''AppleGothic''], axes_unicode_minus = False\<rparr>]
   \<and> fst (setup_korean_font \<lparr>system = ''Darwin'', ttflist = [''Menlo''], files = Map.empty\<rparr> \<lparr>font_family = [''sans-serif''], axes_unicode_minus = True\<rparr>)
     = None
   \<and> List.map_filter pyplot_config
       (fst (main \<lparr>system = ''Darwin'', ttflist = [''Menlo''], files = Map.empty\<rparr> LineChart
         (session \<lparr>system = ''Darwin'', ttflist = [''Menlo''], files = Map.empty\<rparr>
            [ScatterPlot] (fresh_process \<lparr>font_family = [''sans-serif''], axes_unicode_minus = True\<rparr>))))
     = [\<lparr>font_family = [''sans-serif''], axes_unicode_minus = True\<rparr>]"
proof -
  let ?h = "\<lparr>system = ''Darwin'', ttflist = [''AppleGothic''], files = Map.empty\<rparr>"
  let ?g = "\<lparr>system = ''Darwin'', ttflist = [''Menlo''], files = Map.empty\<rparr>"
  let ?rc = "\<lparr>font_family = [''sans-serif''], axes_unicode_minus = True\<rparr>"
  have a: "fst (setup_korean_font ?h ?rc) = Some ''AppleGothic''"
    by (simp add: setup_korean_font_def font_candidates_def)
  have v: "validate_stringlist ''AppleGothic'' = [''AppleGothic'']"
    by (simp add: validate_plain plain_name_def is_space_def)
  have n: "fst (setup_korean_font ?g ?rc) = None"
    by (simp add: setup_korean_font_def font_candidates_def load_font_file_def get_name_def)
  note t = main_draws_after_setup [of ?h "[PieChart, Heatmap]" ?rc BarChart]
  note named = t [THEN conjunct2, THEN conjunct2, THEN conjunct2, THEN conjunct1, rule_format]
  note u = main_draws_after_setup [of ?g "[ScatterPlot]" ?rc LineChart]
  note failed = u [THEN conjunct2, THEN conjunct2, THEN conjunct2, THEN conjunct2,
      THEN conjunct1, rule_format, OF n, THEN conjunct2]
  have "List.map_filter pyplot_config (fst (main ?h BarChart (session ?h [PieChart, Heatmap]
          (fresh_process ?rc))))
     = [\<lparr>font_family = [''AppleGothic''], axes_unicode_minus = False\<rparr>]"
    using named [OF a] v by simp
  then show ?thesis using a n failed by (intro conjI)
qed







end
